theory Spec2Isabelle
  imports Main
begin

section \<open>The like toggle of \<^verbatim>\<open>static/likes.js\<close>\<close>

text \<open>
  \<^verbatim>\<open>static/likes.js\<close> is one asynchronous click handler, \<^verbatim>\<open>toggleLike\<close>, over jQuery and
  axios. The development below embeds the handler in HOL by explicit state passing:
  the page (elements, the defaults of the HTTP client, the effects observed so far) is a
  record, the handler is split at its \<^verbatim>\<open>await\<close> into the part that runs on the click and
  the part that runs when the request settles, and a rejected promise is a value.
  The library calls the handler makes (\<^verbatim>\<open>closest\<close>, \<^verbatim>\<open>data\<close>, \<^verbatim>\<open>addClass\<close>, \<^verbatim>\<open>removeClass\<close>,
  \<^verbatim>\<open>axios.post\<close>) and the two language conversions it relies on (the template literal's
  ToString, and \<^verbatim>\<open>== true\<close>) are given as functions of their own, after the documented
  behaviour of jQuery 3, axios and ECMAScript.
\<close>

subsection \<open>JavaScript values\<close>

text \<open>
  A value is what a data attribute read by jQuery or a parsed JSON payload can be.
  A number is an IEEE 754 double. As a value it is written by a numeral: \<open>Dec m e\<close>
  stands for the double nearest to \<open>m * 10^e\<close>, so every double is some \<open>Dec m e\<close>, by
  its exact decimal expansion. A \<open>double\<close> is the number itself: \<open>DFin neg r x\<close> is
  \<open>r * 2^x\<close> with its sign, the mantissa \<open>r\<close> below \<open>2^53\<close>, and at least \<open>2^52\<close> unless
  \<open>x = - 1074\<close>; the two zeros are one, \<open>DFin False 0 0\<close>. Strings are sequences of code
  units below 256.
\<close>

datatype jsnum = NaN | PosInf | NegInf | Dec int int

datatype double = DNaN | DInf bool | DFin bool int int

datatype jsval =
    JUndefined
  | JNull
  | JBool bool
  | JNum jsnum
  | JStr string
  | JArr "jsval list"
  | JObj "(string \<times> jsval) list"

text \<open>
  \<open>digits b n\<close> are the digits of a natural number \<open>n\<close> to the base \<open>b\<close>. For a positive
  \<open>num / den\<close>, \<open>binary_exponent\<close> is the \<open>E\<close> with \<open>2^E \<le> num / den < 2^(E + 1)\<close> and
  \<open>decimal_exponent\<close> the \<open>n\<close> with \<open>10^(n - 1) \<le> num / den < 10^n\<close>.
\<close>

function digits :: "int \<Rightarrow> int \<Rightarrow> int list" where
  "digits b n = (if n < b \<or> b < 2 then [n] else digits b (n div b) @ [n mod b])"
  by pat_completeness auto
termination
  by (relation "measure (\<lambda>(b, n). nat n)") (auto simp: int_div_less_self)

declare digits.simps [simp del]

definition binary_exponent :: "int \<Rightarrow> int \<Rightarrow> int" where
  "binary_exponent num den =
     (if den \<le> num then int (length (digits 2 (num div den))) - 1
      else - int (length (digits 2 ((den - 1) div num))))"

definition decimal_exponent :: "int \<Rightarrow> int \<Rightarrow> int" where
  "decimal_exponent num den =
     (if den \<le> num then int (length (digits 10 (num div den)))
      else 1 - int (length (digits 10 ((den - 1) div num))))"

text \<open>
  Rounding to a double, in integer arithmetic. The mantissa of a double has 53 bits, so
  for a number with binary exponent \<open>E\<close> its last bit is worth \<open>2^x\<close> with \<open>x = E - 52\<close>, and
  with \<open>x = - 1074\<close> for the subnormal numbers below \<open>2^(- 1022)\<close>. The quotient by \<open>2^x\<close> is
  rounded to the nearest integer, to the even one at a tie; a mantissa that reaches
  \<open>2^53\<close> is the \<open>2^52\<close> of the next exponent; beyond \<open>x = 971\<close> lies infinity.
\<close>

definition round_half_even :: "int \<Rightarrow> int \<Rightarrow> int" where
  "round_half_even num den =
     (let f = num div den; r = num mod den
      in if 2 * r < den then f
         else if den < 2 * r then f + 1
         else if even f then f else f + 1)"

definition finite_double :: "bool \<Rightarrow> int \<Rightarrow> int \<Rightarrow> double" where
  "finite_double neg r x =
     (if r = 0 then DFin False 0 0
      else if r = 2 ^ 53 then (if 971 \<le> x then DInf neg else DFin neg (2 ^ 52) (x + 1))
      else if 971 < x then DInf neg
      else DFin neg r x)"

definition round_fraction :: "bool \<Rightarrow> int \<Rightarrow> int \<Rightarrow> double" where
  "round_fraction neg num den =
     (let x = max (binary_exponent num den) (- 1022) - 52
      in finite_double neg
           (if 0 \<le> x then round_half_even num (den * 2 ^ nat x)
            else round_half_even (num * 2 ^ nat (- x)) den) x)"

definition round_decimal :: "bool \<Rightarrow> int \<Rightarrow> int \<Rightarrow> double" where
  "round_decimal neg m e =
     (if 0 \<le> e then round_fraction neg (m * 10 ^ nat e) 1
      else round_fraction neg m (10 ^ nat (- e)))"

fun round_number :: "jsnum \<Rightarrow> double" where
  "round_number NaN = DNaN"
| "round_number PosInf = DInf False"
| "round_number NegInf = DInf True"
| "round_number (Dec m e) =
     (if m = 0 then DFin False 0 0
      else if 0 < m then round_decimal False m e
      else round_decimal True (- m) e)"

text \<open>
  Number to text (ECMAScript \<^verbatim>\<open>Number::toString\<close>, radix 10). The digits are the fewest,
  at most 17, that still round to the double; of two such numerals with as many digits
  the nearer one is taken, and the even one at a tie. \<open>candidate r x n k\<close> looks among
  the numerals of \<open>k\<close> digits at the two next to the double \<open>r * 2^x\<close>, whose decimal
  exponent is \<open>n\<close>. With \<open>s\<close> the \<open>k\<close> digits and \<open>n\<close> the position of the decimal point:
  plain digits when \<open>k \<le> n \<le> 21\<close>, a decimal point inside when \<open>0 < n \<le> 21\<close>, leading
  zeros when \<open>-6 < n \<le> 0\<close>, and exponent notation otherwise.
\<close>

definition candidate :: "int \<Rightarrow> int \<Rightarrow> int \<Rightarrow> nat \<Rightarrow> (int \<times> int) option" where
  "candidate r x n k =
     (let num = (if 0 \<le> x then r * 2 ^ nat x else r) * 10 ^ nat (int k - n);
          den = (if 0 \<le> x then 1 else 2 ^ nat (- x)) * 10 ^ nat (n - int k);
          lo = num div den;
          rest = num mod den;
          hi = lo + 1;
          ok_lo = (rest = 0 \<or> round_decimal False lo (n - int k) = DFin False r x);
          ok_hi = (rest \<noteq> 0 \<and> round_decimal False hi (n - int k) = DFin False r x)
      in if ok_lo \<and> ok_hi
         then (if 2 * rest < den then Some (lo, n - int k)
               else if den < 2 * rest then Some (hi, n - int k)
               else if even lo then Some (lo, n - int k) else Some (hi, n - int k))
         else if ok_lo then Some (lo, n - int k)
         else if ok_hi then Some (hi, n - int k)
         else None)"

fun first_candidate :: "(nat \<Rightarrow> (int \<times> int) option) \<Rightarrow> nat list \<Rightarrow> (int \<times> int) option" where
  "first_candidate f [] = None"
| "first_candidate f (k # ks) = (case f k of Some c \<Rightarrow> Some c | None \<Rightarrow> first_candidate f ks)"

definition shortest_digits :: "int \<Rightarrow> int \<Rightarrow> int \<times> int" where
  "shortest_digits r x =
     (let n = (if 0 \<le> x then decimal_exponent (r * 2 ^ nat x) 1 else decimal_exponent r (2 ^ nat (- x)))
      in case first_candidate (candidate r x n) [1..<18] of
           None \<Rightarrow> (0, 0)
         | Some c \<Rightarrow> c)"

definition digit_char :: "nat \<Rightarrow> char" where
  "digit_char d = char_of (48 + d)"

definition show_nat :: "int \<Rightarrow> string" where
  "show_nat n = map (\<lambda>d. digit_char (nat d)) (digits 10 n)"

definition number_to_string_pos :: "int \<Rightarrow> int \<Rightarrow> string" where
  "number_to_string_pos m e =
     (let ds = show_nat m;
          z = length (takeWhile (\<lambda>c. c = CHR ''0'') (rev ds));
          s = take (length ds - z) ds;
          k = int (length s);
          n = e + int z + k
      in if k \<le> n \<and> n \<le> 21 then s @ replicate (nat (n - k)) CHR ''0''
         else if 0 < n \<and> n \<le> 21 then take (nat n) s @ ''.'' @ drop (nat n) s
         else if -6 < n \<and> n \<le> 0 then ''0.'' @ replicate (nat (- n)) CHR ''0'' @ s
         else (if k = 1 then s else hd s # ''.'' @ tl s)
              @ ''e'' @ (if n - 1 < 0 then ''-'' else ''+'') @ show_nat \<bar>n - 1\<bar>)"

fun double_to_string :: "double \<Rightarrow> string" where
  "double_to_string DNaN = ''NaN''"
| "double_to_string (DInf neg) = (if neg then ''-Infinity'' else ''Infinity'')"
| "double_to_string (DFin neg r x) =
     (if r = 0 then ''0''
      else (if neg then ''-'' else [])
           @ (case shortest_digits r x of (s, e) \<Rightarrow> number_to_string_pos s e))"

definition number_to_string :: "jsnum \<Rightarrow> string" where
  "number_to_string n = double_to_string (round_number n)"

text \<open>
  Text to number (ECMAScript \<^verbatim>\<open>StringToNumber\<close>): white space around the literal is
  dropped; the empty text is 0; a literal is \<^verbatim>\<open>Infinity\<close> or decimal digits with an
  optional fraction and exponent, both with an optional sign, or unsigned hexadecimal,
  octal or binary digits after \<^verbatim>\<open>0x\<close>, \<^verbatim>\<open>0o\<close>, \<^verbatim>\<open>0b\<close>; anything else is NaN. The value of
  the literal is rounded to a double.
\<close>

definition is_StrWhiteSpaceChar :: "char \<Rightarrow> bool" where
  "is_StrWhiteSpaceChar c = (of_char c \<in> {9, 10, 11, 12, 13, 32, 160 :: nat})"

definition trim :: "string \<Rightarrow> string" where
  "trim s = rev (dropWhile is_StrWhiteSpaceChar (rev (dropWhile is_StrWhiteSpaceChar s)))"

definition is_digit :: "char \<Rightarrow> bool" where
  "is_digit c = (48 \<le> (of_char c :: int) \<and> (of_char c :: int) \<le> 57)"

definition hex_val :: "char \<Rightarrow> int option" where
  "hex_val c =
     (let k = (of_char c :: int)
      in if 48 \<le> k \<and> k \<le> 57 then Some (k - 48)
         else if 97 \<le> k \<and> k \<le> 102 then Some (k - 87)
         else if 65 \<le> k \<and> k \<le> 70 then Some (k - 55)
         else None)"

fun radix_digits :: "int \<Rightarrow> int \<Rightarrow> string \<Rightarrow> int option" where
  "radix_digits b acc [] = Some acc"
| "radix_digits b acc (c # cs) =
     (case hex_val c of
        None \<Rightarrow> None
      | Some d \<Rightarrow> if d < b then radix_digits b (b * acc + d) cs else None)"

definition digits_val :: "string \<Rightarrow> int" where
  "digits_val ds = foldl (\<lambda>a c. 10 * a + (of_char c - 48)) 0 ds"

definition exponent_part :: "string \<Rightarrow> int option" where
  "exponent_part s =
     (case s of
        [] \<Rightarrow> Some 0
      | c # r \<Rightarrow>
          if c = CHR ''e'' \<or> c = CHR ''E'' then
            (let (neg, ds) = (case r of
                                [] \<Rightarrow> (False, [])
                              | d # r' \<Rightarrow> if d = CHR ''-'' then (True, r')
                                          else if d = CHR ''+'' then (False, r')
                                          else (False, r))
             in if ds \<noteq> [] \<and> list_all is_digit ds
                then Some (if neg then - digits_val ds else digits_val ds)
                else None)
          else None)"

definition unsigned_decimal :: "string \<Rightarrow> (int \<times> int) option" where
  "unsigned_decimal s =
     (let ip = takeWhile is_digit s;
          r1 = dropWhile is_digit s;
          dot = (r1 \<noteq> [] \<and> hd r1 = CHR ''.'');
          fp = (if dot then takeWhile is_digit (tl r1) else []);
          r2 = (if dot then dropWhile is_digit (tl r1) else r1)
      in if ip = [] \<and> fp = [] then None
         else (case exponent_part r2 of
                 None \<Rightarrow> None
               | Some ex \<Rightarrow> Some (digits_val (ip @ fp), ex - int (length fp))))"

definition signed_literal :: "bool \<Rightarrow> string \<Rightarrow> double" where
  "signed_literal neg s =
     (if s = ''Infinity'' then DInf neg
      else (case unsigned_decimal s of
              None \<Rightarrow> DNaN
            | Some (m, e) \<Rightarrow> round_number (Dec (if neg then - m else m) e)))"

definition radix_literal :: "int \<Rightarrow> string \<Rightarrow> double" where
  "radix_literal b ds =
     (if ds = [] then DNaN
      else (case radix_digits b 0 ds of None \<Rightarrow> DNaN | Some n \<Rightarrow> round_number (Dec n 0)))"

definition string_to_number :: "string \<Rightarrow> double" where
  "string_to_number str =
     (let s = trim str
      in case s of
           [] \<Rightarrow> DFin False 0 0
         | c # r \<Rightarrow>
             if c = CHR ''+'' then signed_literal False r
             else if c = CHR ''-'' then signed_literal True r
             else if c = CHR ''0'' \<and> r \<noteq> [] \<and> hd r \<in> {CHR ''x'', CHR ''X''} then radix_literal 16 (tl r)
             else if c = CHR ''0'' \<and> r \<noteq> [] \<and> hd r \<in> {CHR ''o'', CHR ''O''} then radix_literal 8 (tl r)
             else if c = CHR ''0'' \<and> r \<noteq> [] \<and> hd r \<in> {CHR ''b'', CHR ''B''} then radix_literal 2 (tl r)
             else signed_literal False s)"

text \<open>
  Equality of numbers: NaN equals nothing, and two other numbers are equal when they are
  the same double.
\<close>

definition number_equal :: "double \<Rightarrow> double \<Rightarrow> bool" where
  "number_equal a b = (a \<noteq> DNaN \<and> a = b)"

text \<open>
  ToString, as a template literal applies it: an array is the texts of its elements
  joined by commas, with nothing for \<^verbatim>\<open>null\<close> and \<^verbatim>\<open>undefined\<close>; any other object is
  \<^verbatim>\<open>[object Object]\<close>.
\<close>

fun to_string :: "jsval \<Rightarrow> string"
  and join_elements :: "jsval list \<Rightarrow> string" where
  "to_string JUndefined = ''undefined''"
| "to_string JNull = ''null''"
| "to_string (JBool b) = (if b then ''true'' else ''false'')"
| "to_string (JNum n) = number_to_string n"
| "to_string (JStr s) = s"
| "to_string (JArr vs) = join_elements vs"
| "to_string (JObj kvs) = ''[object Object]''"
| "join_elements [] = ''''"
| "join_elements (v # vs) =
     (if v = JUndefined \<or> v = JNull then '''' else to_string v)
     @ (if vs = [] then '''' else '','' @ join_elements vs)"

text \<open>
  ToNumber; an object is first made a primitive, which for arrays and plain objects is
  their text.
\<close>

fun to_number :: "jsval \<Rightarrow> double" where
  "to_number JUndefined = DNaN"
| "to_number JNull = round_number (Dec 0 0)"
| "to_number (JBool b) = round_number (Dec (if b then 1 else 0) 0)"
| "to_number (JNum n) = round_number n"
| "to_number (JStr s) = string_to_number s"
| "to_number v = string_to_number (to_string v)"

text \<open>
  \<^verbatim>\<open>v == true\<close> (ECMAScript \<^verbatim>\<open>IsLooselyEqual\<close>): a boolean is compared as it is;
  \<^verbatim>\<open>null\<close> and \<^verbatim>\<open>undefined\<close> equal only each other; for every other value \<^verbatim>\<open>true\<close>
  becomes the number 1 and the value is compared to it as a number.
\<close>

fun loose_equals_true :: "jsval \<Rightarrow> bool" where
  "loose_equals_true (JBool b) = b"
| "loose_equals_true JUndefined = False"
| "loose_equals_true JNull = False"
| "loose_equals_true v = number_equal (to_number v) (to_number (JBool True))"


subsection \<open>The page: elements, the HTTP client, observed effects\<close>

text \<open>
  An element is referred to by its index in the document's list of elements, which is in
  document order. \<open>classes\<close> are the tokens of the element's class attribute, in their
  order, and \<open>dataset\<close> gives, for the name after \<^verbatim>\<open>data-\<close>, the value jQuery's \<^verbatim>\<open>.data\<close>
  reads from that attribute. Nothing in the handler writes a data attribute.
\<close>

record element =
  parent :: "nat option"
  classes :: "string list"
  dataset :: "(string \<times> jsval) list"

record event =
  target :: nat
  defaultPrevented :: bool

text \<open>
  A request as it is sent: its headers are the names and the texts it carries. The
  effects record, in the order of the program, what an invocation does beyond the page:
  preventing the default action, logging to the console, sending a request.
\<close>

record request =
  verb :: string
  url :: string
  headers :: "(string \<times> string) list"
  body :: "jsval option"

datatype effect = DefaultPrevented | Logged "jsval list" | Sent request

record page =
  elements :: "element list"
  defaults_headers_common :: "(string \<times> jsval) list"
  effects :: "effect list"

text \<open>What the server, or the network, answers to a request.\<close>

datatype response = NetworkError | HttpResponse nat jsval

record axios_response =
  status :: nat
  data :: jsval

datatype error = AxiosError response | TypeError

datatype 'a settled = Fulfilled 'a | Rejected error

text \<open>
  The module's constants: \<^verbatim>\<open>$favButton\<close> and \<^verbatim>\<open>$favIcon\<close> are jQuery collections, lists of
  element references, made once when the script is loaded.
\<close>

record likes_module =
  favButton :: "nat list"
  favIcon :: "nat list"

definition BASE_URL :: string where
  "BASE_URL = ''http://localhost:5001/api''"

subsection \<open>jQuery\<close>

definition has_class :: "string \<Rightarrow> element \<Rightarrow> bool" where
  "has_class c e = (c \<in> set (classes e))"

text \<open>\<^verbatim>\<open>$(".c")\<close>: the elements of the document with class \<open>c\<close>, in document order.\<close>

definition jq_select :: "string \<Rightarrow> element list \<Rightarrow> nat list" where
  "jq_select c els = filter (\<lambda>i. has_class c (els ! i)) [0..<length els]"

text \<open>
  The element and its ancestors, innermost first. A document is a finite tree, so the
  walk along \<open>parent\<close> ends within as many steps as the document has elements; the first
  argument bounds the walk by that number.
\<close>

fun ancestors_or_self :: "nat \<Rightarrow> element list \<Rightarrow> nat \<Rightarrow> nat list" where
  "ancestors_or_self 0 els i = []"
| "ancestors_or_self (Suc n) els i =
     (if i < length els
      then i # (case parent (els ! i) of None \<Rightarrow> [] | Some p \<Rightarrow> ancestors_or_self n els p)
      else [])"

text \<open>
  \<^verbatim>\<open>$(elem).closest(".c")\<close>: the collection holding the first of the element and its
  ancestors that has class \<open>c\<close>, or the empty collection.
\<close>

definition jq_closest :: "string \<Rightarrow> element list \<Rightarrow> nat \<Rightarrow> nat list" where
  "jq_closest c els i =
     (case find (\<lambda>a. has_class c (els ! a)) (ancestors_or_self (length els) els i) of
        None \<Rightarrow> []
      | Some a \<Rightarrow> [a])"

text \<open>
  \<^verbatim>\<open>collection.data(key)\<close> reads from the first element of the collection, and is
  \<^verbatim>\<open>undefined\<close> for an empty collection and for an element without the attribute.
\<close>

definition jq_data :: "element list \<Rightarrow> nat list \<Rightarrow> string \<Rightarrow> jsval" where
  "jq_data els coll key =
     (case coll of
        [] \<Rightarrow> JUndefined
      | i # _ \<Rightarrow>
          if i < length els
          then (case map_of (dataset (els ! i)) key of None \<Rightarrow> JUndefined | Some v \<Rightarrow> v)
          else JUndefined)"

text \<open>The class names of an argument such as \<^verbatim>\<open>"bi-star-fill text-warning"\<close>.\<close>

definition is_html_space :: "char \<Rightarrow> bool" where
  "is_html_space c = (of_char c \<in> {32, 9, 13, 10, 12 :: nat})"

fun class_names :: "string \<Rightarrow> string \<Rightarrow> string list" where
  "class_names acc [] = (if acc = [] then [] else [rev acc])"
| "class_names acc (c # cs) =
     (if is_html_space c
      then (if acc = [] then class_names [] cs else rev acc # class_names [] cs)
      else class_names (c # acc) cs)"

text \<open>
  \<^verbatim>\<open>addClass\<close> appends each name the element does not have yet; \<^verbatim>\<open>removeClass\<close> takes
  every occurrence of each name away.
\<close>

fun add_classes :: "string list \<Rightarrow> string list \<Rightarrow> string list" where
  "add_classes [] cur = cur"
| "add_classes (c # cs) cur = add_classes cs (if c \<in> set cur then cur else cur @ [c])"

fun remove_classes :: "string list \<Rightarrow> string list \<Rightarrow> string list" where
  "remove_classes [] cur = cur"
| "remove_classes (c # cs) cur = remove_classes cs (removeAll c cur)"

fun jq_each :: "(element \<Rightarrow> element) \<Rightarrow> nat list \<Rightarrow> element list \<Rightarrow> element list" where
  "jq_each f [] els = els"
| "jq_each f (i # coll) els =
     jq_each f coll (if i < length els then els[i := f (els ! i)] else els)"

definition jq_addClass :: "string \<Rightarrow> nat list \<Rightarrow> element list \<Rightarrow> element list" where
  "jq_addClass names coll els =
     jq_each (\<lambda>e. e\<lparr>classes := add_classes (class_names [] names) (classes e)\<rparr>) coll els"

definition jq_removeClass :: "string \<Rightarrow> nat list \<Rightarrow> element list \<Rightarrow> element list" where
  "jq_removeClass names coll els =
     jq_each (\<lambda>e. e\<lparr>classes := remove_classes (class_names [] names) (classes e)\<rparr>) coll els"

definition preventDefault :: "event \<Rightarrow> page \<Rightarrow> event \<times> page" where
  "preventDefault evt st =
     (evt\<lparr>defaultPrevented := True\<rparr>, st\<lparr>effects := effects st @ [DefaultPrevented]\<rparr>)"

definition console_log :: "jsval list \<Rightarrow> page \<Rightarrow> page" where
  "console_log args st = st\<lparr>effects := effects st @ [Logged args]\<rparr>"

subsection \<open>axios\<close>

fun requests :: "effect list \<Rightarrow> request list" where
  "requests [] = []"
| "requests (Sent q # es) = q # requests es"
| "requests (_ # es) = requests es"

text \<open>Assignment to a property of an object: in place if the name is there, else last.\<close>

fun set_property :: "string \<Rightarrow> jsval \<Rightarrow> (string \<times> jsval) list \<Rightarrow> (string \<times> jsval) list" where
  "set_property k v [] = [(k, v)]"
| "set_property k v (p # ps) = (if fst p = k then (k, v) # ps else p # set_property k v ps)"

text \<open>
  What a request carries for a default header (axios 1.x, over the browser's
  \<^verbatim>\<open>XMLHttpRequest\<close>): nothing for a value that is \<^verbatim>\<open>undefined\<close>, \<^verbatim>\<open>null\<close> or \<^verbatim>\<open>false\<close>, and
  otherwise the text of the value, from which the browser takes leading and trailing
  tabs, line feeds, carriage returns and spaces. The texts are taken to be ones the
  browser accepts as a header value, with no NUL, line feed or carriage return inside.
\<close>

definition is_http_space :: "char \<Rightarrow> bool" where
  "is_http_space c = (of_char c \<in> {9, 10, 13, 32 :: nat})"

definition http_trim :: "string \<Rightarrow> string" where
  "http_trim s = rev (dropWhile is_http_space (rev (dropWhile is_http_space s)))"

fun header_value :: "jsval \<Rightarrow> string option" where
  "header_value JUndefined = None"
| "header_value JNull = None"
| "header_value (JBool False) = None"
| "header_value v = Some (http_trim (to_string v))"

definition wire_headers :: "(string \<times> jsval) list \<Rightarrow> (string \<times> string) list" where
  "wire_headers hs =
     List.map_filter (\<lambda>k. map_option (Pair k) (Option.bind (map_of hs k) header_value))
       (remdups (map fst hs))"

text \<open>
  A call of the client sends the request, with the client's common default headers of
  that moment (\<^verbatim>\<open>axios.post(url)\<close> passes no headers and no data of its own), and returns
  a promise; the promise is named by the number of the request among those sent so far.
\<close>

definition axios_request :: "string \<Rightarrow> string \<Rightarrow> jsval option \<Rightarrow> page \<Rightarrow> nat \<times> page" where
  "axios_request v u b st =
     (length (requests (effects st)),
      st\<lparr>effects := effects st @
            [Sent \<lparr>verb = v, url = u, headers = wire_headers (defaults_headers_common st),
                   body = b\<rparr>]\<rparr>)"

definition axios_post :: "string \<Rightarrow> page \<Rightarrow> nat \<times> page" where
  "axios_post u st = axios_request ''POST'' u None st"

text \<open>
  The promise is fulfilled with the response when its status is one of 200 to 299 (the
  client's default \<^verbatim>\<open>validateStatus\<close>), and rejected otherwise.
\<close>

fun axios_settle :: "response \<Rightarrow> axios_response settled" where
  "axios_settle NetworkError = Rejected (AxiosError NetworkError)"
| "axios_settle (HttpResponse s d) =
     (if 200 \<le> s \<and> s < 300 then Fulfilled \<lparr>status = s, data = d\<rparr>
      else Rejected (AxiosError (HttpResponse s d)))"

text \<open>
  \<^verbatim>\<open>resp.data.favorited\<close>: reading a property of \<^verbatim>\<open>undefined\<close> or \<^verbatim>\<open>null\<close> throws a
  TypeError; a value that has no property of that name gives \<^verbatim>\<open>undefined\<close>.
\<close>

fun get_favorited :: "jsval \<Rightarrow> error + jsval" where
  "get_favorited JUndefined = Inl TypeError"
| "get_favorited JNull = Inl TypeError"
| "get_favorited (JObj kvs) =
     Inr (case map_of kvs ''favorited'' of None \<Rightarrow> JUndefined | Some v \<Rightarrow> v)"
| "get_favorited _ = Inr JUndefined"

subsection \<open>The handler\<close>

text \<open>
  \<^verbatim>\<open>toggleLike_issue\<close> is the handler up to its \<^verbatim>\<open>await\<close>: it returns the event, the
  promise the handler waits for and the page. \<^verbatim>\<open>toggleLike_resume\<close> is the rest, run
  when that promise settles; a rejection leaves the handler at once, with no handler of
  its own. \<^verbatim>\<open>toggleLike\<close> is one whole invocation, for a given answer to its request.
\<close>

definition toggleLike_issue :: "likes_module \<Rightarrow> event \<Rightarrow> page \<Rightarrow> event \<times> nat \<times> page" where
  "toggleLike_issue md evt st =
     (let (evt1, st1) = preventDefault evt st;
          st2 = console_log [JStr ''This was toggled''] st1;
          messageId = jq_data (elements st2)
                        (jq_closest ''like-form'' (elements st2) (target evt1)) ''message-id'';
          csrf_token = jq_data (elements st2) (favButton md) ''csrf'';
          st3 = console_log [JStr ''This is the csrf:'', csrf_token] st2;
          st4 = console_log [JStr ''This is messageId'', messageId] st3;
          st5 = st4\<lparr>defaults_headers_common :=
                      set_property ''X-CSRFToken'' csrf_token (defaults_headers_common st4)\<rparr>;
          (promise, st6) =
             axios_post (BASE_URL @ ''/messages/'' @ to_string messageId @ ''/like'') st5
      in (evt1, promise, st6))"

definition toggleLike_resume :: "likes_module \<Rightarrow> response \<Rightarrow> page \<Rightarrow> unit settled \<times> page" where
  "toggleLike_resume md r st =
     (case axios_settle r of
        Rejected e \<Rightarrow> (Rejected e, st)
      | Fulfilled resp \<Rightarrow>
          (case get_favorited (data resp) of
             Inl e \<Rightarrow> (Rejected e, st)
           | Inr favorited \<Rightarrow>
               if loose_equals_true favorited
               then (Fulfilled (),
                     st\<lparr>elements :=
                          jq_addClass ''bi-star-fill text-warning'' (favIcon md)
                            (jq_removeClass ''bi-star'' (favIcon md) (elements st))\<rparr>)
               else (Fulfilled (),
                     st\<lparr>elements :=
                          jq_addClass ''bi-star'' (favIcon md)
                            (jq_removeClass ''bi-star-fill text-warning'' (favIcon md)
                               (elements st))\<rparr>)))"

definition toggleLike :: "likes_module \<Rightarrow> event \<Rightarrow> response \<Rightarrow> page \<Rightarrow> event \<times> unit settled \<times> page" where
  "toggleLike md evt r st =
     (let (evt1, promise, st1) = toggleLike_issue md evt st;
          (res, st2) = toggleLike_resume md r st1
      in (evt1, res, st2))"

text \<open>Loading the script selects the two collections.\<close>

definition load :: "element list \<Rightarrow> likes_module" where
  "load els = \<lparr>favButton = jq_select ''fav-button'' els, favIcon = jq_select ''fav-icon'' els\<rparr>"

subsection \<open>The event loop\<close>





text \<open>The three components of what an invocation returns.\<close>

definition event_after :: "event \<times> 'a \<times> page \<Rightarrow> event" where
  "event_after x = fst x"

definition result_after :: "event \<times> 'a \<times> page \<Rightarrow> 'a" where
  "result_after x = fst (snd x)"

definition page_after :: "event \<times> 'a \<times> page \<Rightarrow> page" where
  "page_after x = snd (snd x)"

subsection \<open>A page with two like forms\<close>

text \<open>
  Two forms, each around a favorite button with its icon (elements 0 to 2 and 3 to 5),
  an element that carries a star class and is no favorite icon (6), and a favorite
  button outside every form (7). The message ids are numbers, as jQuery reads
  \<^verbatim>\<open>data-message-id="42"\<close>. The clicks are on the first icon, on the second icon and on
  the button outside the forms; the loop starts with nothing awaited.
\<close>

definition example_elements :: "element list" where
  "example_elements =
     [\<lparr>parent = None, classes = [''like-form''], dataset = [(''message-id'', JNum (Dec 42 0))]\<rparr>,
      \<lparr>parent = Some 0, classes = [''fav-button'', ''btn''], dataset = [(''csrf'', JStr ''token-a'')]\<rparr>,
      \<lparr>parent = Some 1, classes = [''fav-icon'', ''bi'', ''bi-star''], dataset = []\<rparr>,
      \<lparr>parent = None, classes = [''like-form''], dataset = [(''message-id'', JNum (Dec 43 0))]\<rparr>,
      \<lparr>parent = Some 3, classes = [''fav-button'', ''btn''], dataset = [(''csrf'', JStr ''token-b'')]\<rparr>,
      \<lparr>parent = Some 4, classes = [''fav-icon'', ''bi'', ''bi-star-fill'', ''text-warning''], dataset = []\<rparr>,
      \<lparr>parent = None, classes = [''bi'', ''bi-star''], dataset = []\<rparr>,
      \<lparr>parent = None, classes = [''fav-button''], dataset = []\<rparr>]"

definition example_page :: page where
  "example_page =
     \<lparr>elements = example_elements,
      defaults_headers_common = [(''Accept'', JStr ''application/json, text/plain, */*'')],
      effects = []\<rparr>"

definition example_click :: event where
  "example_click = \<lparr>target = 2, defaultPrevented = False\<rparr>"

definition example_click_outside :: event where
  "example_click_outside = \<lparr>target = 7, defaultPrevented = False\<rparr>"

definition example_click_second :: event where
  "example_click_second = \<lparr>target = 5, defaultPrevented = False\<rparr>"





section \<open>Properties\<close>

subsection \<open>Numbers\<close>

text \<open>
  Texts next to 1 are the number 1, an odd integer above \<open>2^53\<close> is its even neighbour,
  and a number prints with the fewest digits that give it back.
\<close>

lemma double_examples:
  "round_number (Dec 100000000000000000001 (- 20)) = round_number (Dec 1 0)"
  "round_number (Dec 99999999999999999 (- 17)) = round_number (Dec 1 0)"
  "round_number (Dec 10000000000000002 (- 16)) \<noteq> round_number (Dec 1 0)"
  "round_number (Dec 9007199254740993 0) = round_number (Dec 9007199254740992 0)"
  "number_to_string (Dec 1 (- 1)) = ''0.1''"
  "number_to_string (Dec 15 20) = ''1.5e+21''"
  by code_simp+

subsection \<open>Class lists and collections\<close>

lemma class_names_star: "class_names [] ''bi-star'' = [''bi-star'']"
  by (simp add: is_html_space_def)

lemma class_names_fill: "class_names [] ''bi-star-fill text-warning'' = [''bi-star-fill'', ''text-warning'']"
  by (simp add: is_html_space_def)

lemma set_add_classes: "set (add_classes ns cur) = set cur \<union> set ns"
  by (induction ns arbitrary: cur) auto

lemma set_remove_classes: "set (remove_classes ns cur) = set cur - set ns"
  by (induction ns arbitrary: cur) auto

lemma add_classes_absorb: "set ns \<subseteq> set cur \<Longrightarrow> add_classes ns cur = cur"
  by (induction ns arbitrary: cur) auto

lemma add_classes_idem: "add_classes ns (add_classes ns cur) = add_classes ns cur"
  by (rule add_classes_absorb) (simp add: set_add_classes)

lemma remove_classes_filter: "remove_classes ns cur = filter (\<lambda>c. c \<notin> set ns) cur"
  by (induction ns arbitrary: cur) (auto simp: removeAll_filter_not_eq intro: filter_cong)

lemma remove_classes_idem: "remove_classes ns (remove_classes ns cur) = remove_classes ns cur"
  by (simp add: remove_classes_filter)

lemma length_jq_each: "length (jq_each f coll els) = length els"
  by (induction coll arbitrary: els) auto

lemma jq_each_other: "i \<notin> set coll \<Longrightarrow> jq_each f coll els ! i = els ! i"
  by (induction coll arbitrary: els) auto

lemma jq_each_member:
  assumes "\<And>e. f (f e) = f e" and "i \<in> set coll" and "i < length els"
  shows "jq_each f coll els ! i = f (els ! i)"
  using assms(2,3)
proof (induction coll arbitrary: els)
  case Nil
  then show ?case by simp
next
  case (Cons j coll)
  let ?els = "if j < length els then els[j := f (els ! j)] else els"
  have len: "i < length ?els" using Cons.prems by simp
  show ?case
  proof (cases "i \<in> set coll")
    case True
    then have "jq_each f coll ?els ! i = f (?els ! i)"
      using Cons.IH len by blast
    also have "\<dots> = f (els ! i)"
      using Cons.prems assms(1) by (cases "i = j") auto
    finally show ?thesis by simp
  next
    case False
    then have "i = j" using Cons.prems by simp
    moreover have "jq_each f coll ?els ! i = ?els ! i"
      using False by (rule jq_each_other)
    ultimately show ?thesis using Cons.prems by simp
  qed
qed

lemma requests_append: "requests (xs @ ys) = requests xs @ requests ys"
  by (induction xs rule: requests.induct) auto

lemma toggleLike_issue_unfold:
  "toggleLike_issue md evt st =
     (evt\<lparr>defaultPrevented := True\<rparr>,
      length (requests (effects st)),
      st\<lparr>defaults_headers_common :=
            set_property ''X-CSRFToken'' (jq_data (elements st) (favButton md) ''csrf'')
              (defaults_headers_common st),
         effects := effects st @
           [DefaultPrevented,
            Logged [JStr ''This was toggled''],
            Logged [JStr ''This is the csrf:'', jq_data (elements st) (favButton md) ''csrf''],
            Logged [JStr ''This is messageId'',
                    jq_data (elements st) (jq_closest ''like-form'' (elements st) (target evt)) ''message-id''],
            Sent \<lparr>verb = ''POST'',
                  url = BASE_URL @ ''/messages/'' @
                        to_string (jq_data (elements st) (jq_closest ''like-form'' (elements st) (target evt)) ''message-id'')
                        @ ''/like'',
                  headers = wire_headers
                              (set_property ''X-CSRFToken'' (jq_data (elements st) (favButton md) ''csrf'')
                                 (defaults_headers_common st)),
                  body = None\<rparr>]\<rparr>)"
  by (simp add: toggleLike_issue_def preventDefault_def console_log_def axios_post_def
      axios_request_def requests_append Let_def)

lemma jq_star_classes:
  assumes "i \<in> set coll" and "i < length els"
  shows "classes (jq_addClass a coll (jq_removeClass b coll els) ! i) =
           add_classes (class_names [] a) (remove_classes (class_names [] b) (classes (els ! i)))"
proof -
  let ?r = "\<lambda>e. e\<lparr>classes := remove_classes (class_names [] b) (classes e)\<rparr>"
  let ?a = "\<lambda>e. e\<lparr>classes := add_classes (class_names [] a) (classes e)\<rparr>"
  have r: "jq_each ?r coll els ! i = ?r (els ! i)"
    using assms by (intro jq_each_member) (simp_all add: remove_classes_idem)
  have "jq_each ?a coll (jq_each ?r coll els) ! i = ?a (jq_each ?r coll els ! i)"
    using assms by (intro jq_each_member) (simp_all add: add_classes_idem length_jq_each)
  with r show ?thesis
    by (simp add: jq_addClass_def jq_removeClass_def)
qed

lemma jq_star_frame:
  assumes "i \<notin> set coll"
  shows "jq_addClass a coll (jq_removeClass b coll els) ! i = els ! i"
  using assms by (simp add: jq_addClass_def jq_removeClass_def jq_each_other)

lemma jq_star_length: "length (jq_addClass a coll (jq_removeClass b coll els)) = length els"
  by (simp add: jq_addClass_def jq_removeClass_def length_jq_each)

lemma toggleLike_resume_fulfilled:
  assumes "200 \<le> s" and "s < 300" and "get_favorited d = Inr v"
  shows "toggleLike_resume md (HttpResponse s d) st =
     (Fulfilled (),
      st\<lparr>elements :=
           (if loose_equals_true v
            then jq_addClass ''bi-star-fill text-warning'' (favIcon md)
                   (jq_removeClass ''bi-star'' (favIcon md) (elements st))
            else jq_addClass ''bi-star'' (favIcon md)
                   (jq_removeClass ''bi-star-fill text-warning'' (favIcon md) (elements st)))\<rparr>)"
  using assms by (simp add: toggleLike_resume_def)

lemma toggleLike_unfold:
  "toggleLike md evt r st =
     (fst (toggleLike_issue md evt st),
      toggleLike_resume md r (snd (snd (toggleLike_issue md evt st))))"
  by (simp add: toggleLike_def split: prod.splits)

lemma starred_classes:
  assumes "i \<in> set coll" and "i < length els"
  shows "classes (jq_addClass ''bi-star-fill text-warning'' coll (jq_removeClass ''bi-star'' coll els) ! i) =
           add_classes [''bi-star-fill'', ''text-warning''] (remove_classes [''bi-star''] (classes (els ! i)))"
  using jq_star_classes [OF assms, of "''bi-star-fill text-warning''" "''bi-star''"]
  unfolding class_names_star class_names_fill .

lemma unstarred_classes:
  assumes "i \<in> set coll" and "i < length els"
  shows "classes (jq_addClass ''bi-star'' coll (jq_removeClass ''bi-star-fill text-warning'' coll els) ! i) =
           add_classes [''bi-star''] (remove_classes [''bi-star-fill'', ''text-warning''] (classes (els ! i)))"
  using jq_star_classes [OF assms, of "''bi-star''" "''bi-star-fill text-warning''"]
  unfolding class_names_star class_names_fill .

lemma elements_issue: "elements (snd (snd (toggleLike_issue md evt st))) = elements st"
  by (simp add: toggleLike_issue_unfold)

lemma toggleLike_fulfilled:
  assumes "200 \<le> s" and "s < 300" and "get_favorited d = Inr v"
  shows "toggleLike md evt (HttpResponse s d) st =
     (evt\<lparr>defaultPrevented := True\<rparr>, Fulfilled (),
      (snd (snd (toggleLike_issue md evt st)))\<lparr>elements :=
           (if loose_equals_true v
            then jq_addClass ''bi-star-fill text-warning'' (favIcon md)
                   (jq_removeClass ''bi-star'' (favIcon md) (elements st))
            else jq_addClass ''bi-star'' (favIcon md)
                   (jq_removeClass ''bi-star-fill text-warning'' (favIcon md) (elements st)))\<rparr>)"
  unfolding toggleLike_unfold toggleLike_resume_fulfilled [OF assms] elements_issue
  by (simp add: toggleLike_issue_unfold)

lemma toggleLike_icon_classes:
  assumes "200 \<le> s" and "s < 300" and "get_favorited d = Inr v"
    and "i \<in> set (favIcon md)" and "i < length (elements st)"
  shows "classes (elements (page_after (toggleLike md evt (HttpResponse s d) st)) ! i) =
     (if loose_equals_true v
      then add_classes [''bi-star-fill'', ''text-warning''] (remove_classes [''bi-star''] (classes (elements st ! i)))
      else add_classes [''bi-star''] (remove_classes [''bi-star-fill'', ''text-warning''] (classes (elements st ! i))))"
  unfolding toggleLike_fulfilled [OF assms(1-3)] page_after_def
  using starred_classes [OF assms(4,5)] unstarred_classes [OF assms(4,5)]
  by simp

lemma toggleLike_icon_class_set:
  assumes "200 \<le> s" and "s < 300" and "get_favorited d = Inr v"
    and "i \<in> set (favIcon md)" and "i < length (elements st)"
  shows "set (classes (elements (page_after (toggleLike md evt (HttpResponse s d) st)) ! i)) =
     (if loose_equals_true v
      then set (classes (elements st ! i)) - {''bi-star''} \<union> {''bi-star-fill'', ''text-warning''}
      else set (classes (elements st ! i)) - {''bi-star-fill'', ''text-warning''} \<union> {''bi-star''})"
proof (cases "loose_equals_true v")
  case True
  then show ?thesis
    by (simp only: toggleLike_icon_classes [OF assms] set_add_classes set_remove_classes if_True)
       auto
next
  case False
  then show ?thesis
    by (simp only: toggleLike_icon_classes [OF assms] set_add_classes set_remove_classes if_False)
       auto
qed

lemma load_example:
  "load example_elements = \<lparr>favButton = [1, 4, 7], favIcon = [2, 5]\<rparr>"
  by code_simp

subsection \<open>The handler's effects\<close>




lemma effects_resume: "effects (snd (toggleLike_resume md r st)) = effects st"
  by (auto simp: toggleLike_resume_def split: settled.splits sum.splits)



lemma jq_closest_none:
  assumes "\<forall>a \<in> set (ancestors_or_self (length els) els i). \<not> has_class c (els ! a)"
  shows "jq_closest c els i = []"
  using assms by (simp add: jq_closest_def find_None_iff split: option.splits)

lemma requests_toggleLike:
  "requests (effects (page_after (toggleLike md evt r st))) =
     requests (effects st) @
       [\<lparr>verb = ''POST'',
         url = BASE_URL @ ''/messages/'' @
               to_string (jq_data (elements st) (jq_closest ''like-form'' (elements st) (target evt)) ''message-id'')
               @ ''/like'',
         headers = wire_headers
                     (set_property ''X-CSRFToken'' (jq_data (elements st) (favButton md) ''csrf'')
                        (defaults_headers_common st)),
         body = None\<rparr>]"
  by (simp add: page_after_def toggleLike_unfold effects_resume toggleLike_issue_unfold requests_append)




lemma effects_example: "effects example_page = []"
  by (simp add: example_page_def)

lemma no_form_example:
  "\<forall>a \<in> set (ancestors_or_self (length (elements example_page)) (elements example_page)
        (target example_click_outside)). \<not> has_class ''like-form'' (elements example_page ! a)"
  by code_simp


lemma map_of_set_property: "map_of (set_property k v ps) = (map_of ps)(k \<mapsto> v)"
  by (induction ps) auto

lemma map_of_map_filter_keys:
  "map_of (List.map_filter (\<lambda>k. map_option (Pair k) (g k)) ks) k = (if k \<in> set ks then g k else None)"
  by (induction ks) (auto simp: List.map_filter_simps split: option.splits)

lemma map_of_wire_headers: "map_of (wire_headers hs) k = Option.bind (map_of hs k) header_value"
proof (cases "map_of hs k")
  case None
  then have "k \<notin> set (remdups (map fst hs))"
    by (simp add: map_of_eq_None_iff)
  then show ?thesis
    using None by (simp add: wire_headers_def map_of_map_filter_keys)
next
  case (Some v)
  then have "k \<in> set (remdups (map fst hs))"
    by (auto simp: image_iff dest: map_of_SomeD intro: bexI [where x = "(k, v)"])
  then show ?thesis
    by (simp add: wire_headers_def map_of_map_filter_keys)
qed

lemma carried_after_set: "map_of (wire_headers (set_property k v ps)) k = header_value v"
  by (simp add: map_of_wire_headers map_of_set_property)




lemma length_elements_resume:
  "length (elements (snd (toggleLike_resume md r st))) = length (elements st)"
  by (auto simp: toggleLike_resume_def jq_star_length split: settled.splits sum.splits)

lemma jq_each_dataset:
  assumes "\<And>e. dataset (f e) = dataset e"
  shows "dataset (jq_each f coll els ! i) = dataset (els ! i)"
proof (induction coll arbitrary: els)
  case Nil
  then show ?case by simp
next
  case (Cons j coll)
  have "dataset ((if j < length els then els[j := f (els ! j)] else els) ! i) = dataset (els ! i)"
    using assms by (cases "i = j") auto
  with Cons.IH show ?case by simp
qed

lemma jq_each_parent:
  assumes "\<And>e. parent (f e) = parent e"
  shows "parent (jq_each f coll els ! i) = parent (els ! i)"
proof (induction coll arbitrary: els)
  case Nil
  then show ?case by simp
next
  case (Cons j coll)
  have "parent ((if j < length els then els[j := f (els ! j)] else els) ! i) = parent (els ! i)"
    using assms by (cases "i = j") auto
  with Cons.IH show ?case by simp
qed

lemma dataset_resume:
  "dataset (elements (snd (toggleLike_resume md r st)) ! i) = dataset (elements st ! i)"
  by (auto simp: toggleLike_resume_def jq_addClass_def jq_removeClass_def jq_each_dataset
      split: settled.splits sum.splits)

lemma parent_resume:
  "parent (elements (snd (toggleLike_resume md r st)) ! i) = parent (elements st ! i)"
  by (auto simp: toggleLike_resume_def jq_addClass_def jq_removeClass_def jq_each_parent
      split: settled.splits sum.splits)

lemma other_resume:
  assumes "i \<notin> set (favIcon md)"
  shows "elements (snd (toggleLike_resume md r st)) ! i = elements st ! i"
  using assms
  by (auto simp: toggleLike_resume_def jq_star_frame split: settled.splits sum.splits)












lemma jq_select_first:
  assumes "b < length els" and "has_class c (els ! b)" and "\<forall>j<b. \<not> has_class c (els ! j)"
  shows "\<exists>rest. jq_select c els = b # rest"
proof -
  have split: "[0..<length els] = [0..<b] @ b # [Suc b..<length els]"
    using assms(1) by (metis le_add1 less_imp_add_positive plus_nat.add_0 upt_add_eq_append upt_conv_Cons)
  have "filter (\<lambda>i. has_class c (els ! i)) [0..<b] = []"
    using assms(3) by (simp add: filter_empty_conv)
  then show ?thesis
    unfolding jq_select_def split using assms(2) by simp
qed

lemma set_jq_select: "i \<in> set (jq_select c els) \<longleftrightarrow> i < length els \<and> has_class c (els ! i)"
  by (auto simp: jq_select_def)

lemma elements_toggleLike:
  "elements (page_after (toggleLike md evt r st)) =
     elements (snd (toggleLike_resume md r (snd (snd (toggleLike_issue md evt st)))))"
  by (simp add: page_after_def toggleLike_unfold)

lemma elements_resume_page:
  assumes "elements st = elements st'"
  shows "elements (snd (toggleLike_resume md r st)) = elements (snd (toggleLike_resume md r st'))"
  using assms by (auto simp: toggleLike_resume_def split: settled.splits sum.splits)







section \<open>The claims\<close>




text \<open>
  C2. When the request is answered with a status from 200 to 299 and a payload whose
  \<^verbatim>\<open>favorited\<close> is \<^verbatim>\<open>true\<close>, the invocation is fulfilled, and afterwards the class list
  of every favorite icon has \<^verbatim>\<open>bi-star-fill\<close> and \<^verbatim>\<open>text-warning\<close> and has no \<^verbatim>\<open>bi-star\<close>.
\<close>

theorem toggleLike_favorited_true:
  assumes "200 \<le> s" and "s < 300"
    and "map_of payload ''favorited'' = Some (JBool True)"
    and "i \<in> set (favIcon md)" and "i < length (elements st)"
  shows "result_after (toggleLike md evt (HttpResponse s (JObj payload)) st) = Fulfilled ()
     \<and> ''bi-star-fill'' \<in> set (classes (elements (page_after (toggleLike md evt (HttpResponse s (JObj payload)) st)) ! i))
     \<and> ''text-warning'' \<in> set (classes (elements (page_after (toggleLike md evt (HttpResponse s (JObj payload)) st)) ! i))
     \<and> ''bi-star'' \<notin> set (classes (elements (page_after (toggleLike md evt (HttpResponse s (JObj payload)) st)) ! i))"
proof -
  have fav: "get_favorited (JObj payload) = Inr (JBool True)"
    using assms(3) by simp
  have "result_after (toggleLike md evt (HttpResponse s (JObj payload)) st) = Fulfilled ()"
    unfolding toggleLike_fulfilled [OF assms(1,2) fav] result_after_def by simp
  then show ?thesis
    unfolding toggleLike_icon_class_set [OF assms(1,2) fav assms(4,5)] by simp
qed

text \<open>On the example page, for the icon that was clicked.\<close>

theorem toggleLike_favorited_true_witness:
  "2 \<in> set (favIcon (load example_elements)) \<and> 2 < length (elements example_page)
   \<and> ''bi-star-fill'' \<in> set (classes (elements (page_after (toggleLike (load example_elements) example_click
         (HttpResponse 200 (JObj [(''favorited'', JBool True)])) example_page)) ! 2))
   \<and> ''text-warning'' \<in> set (classes (elements (page_after (toggleLike (load example_elements) example_click
         (HttpResponse 200 (JObj [(''favorited'', JBool True)])) example_page)) ! 2))
   \<and> ''bi-star'' \<notin> set (classes (elements (page_after (toggleLike (load example_elements) example_click
         (HttpResponse 200 (JObj [(''favorited'', JBool True)])) example_page)) ! 2))"
proof -
  have icon: "2 \<in> set (favIcon (load example_elements))"
    by (simp add: load_example)
  have len: "2 < length (elements example_page)"
    by (simp add: example_page_def example_elements_def)
  have fav: "map_of [(''favorited'', JBool True)] ''favorited'' = Some (JBool True)"
    by simp
  show ?thesis
    using toggleLike_favorited_true [OF _ _ fav icon len, of 200 example_click] icon len
    by simp
qed

text \<open>
  C3. When the request is answered with a status from 200 to 299 and a payload whose
  \<^verbatim>\<open>favorited\<close> is \<^verbatim>\<open>false\<close>, the invocation is fulfilled, and afterwards the class list
  of every favorite icon has \<^verbatim>\<open>bi-star\<close> and has neither \<^verbatim>\<open>bi-star-fill\<close> nor
  \<^verbatim>\<open>text-warning\<close>.
\<close>

theorem toggleLike_favorited_false:
  assumes "200 \<le> s" and "s < 300"
    and "map_of payload ''favorited'' = Some (JBool False)"
    and "i \<in> set (favIcon md)" and "i < length (elements st)"
  shows "result_after (toggleLike md evt (HttpResponse s (JObj payload)) st) = Fulfilled ()
     \<and> ''bi-star'' \<in> set (classes (elements (page_after (toggleLike md evt (HttpResponse s (JObj payload)) st)) ! i))
     \<and> ''bi-star-fill'' \<notin> set (classes (elements (page_after (toggleLike md evt (HttpResponse s (JObj payload)) st)) ! i))
     \<and> ''text-warning'' \<notin> set (classes (elements (page_after (toggleLike md evt (HttpResponse s (JObj payload)) st)) ! i))"
proof -
  have fav: "get_favorited (JObj payload) = Inr (JBool False)"
    using assms(3) by simp
  have "result_after (toggleLike md evt (HttpResponse s (JObj payload)) st) = Fulfilled ()"
    unfolding toggleLike_fulfilled [OF assms(1,2) fav] result_after_def by simp
  then show ?thesis
    unfolding toggleLike_icon_class_set [OF assms(1,2) fav assms(4,5)] by simp
qed

text \<open>
  On the example page, for the icon of the second form, which starts out starred.
\<close>

theorem toggleLike_favorited_false_witness:
  "5 \<in> set (favIcon (load example_elements)) \<and> 5 < length (elements example_page)
   \<and> ''bi-star'' \<in> set (classes (elements (page_after (toggleLike (load example_elements) example_click
         (HttpResponse 200 (JObj [(''favorited'', JBool False)])) example_page)) ! 5))
   \<and> ''bi-star-fill'' \<notin> set (classes (elements (page_after (toggleLike (load example_elements) example_click
         (HttpResponse 200 (JObj [(''favorited'', JBool False)])) example_page)) ! 5))
   \<and> ''text-warning'' \<notin> set (classes (elements (page_after (toggleLike (load example_elements) example_click
         (HttpResponse 200 (JObj [(''favorited'', JBool False)])) example_page)) ! 5))"
proof -
  have icon: "5 \<in> set (favIcon (load example_elements))"
    by (simp add: load_example)
  have len: "5 < length (elements example_page)"
    by (simp add: example_page_def example_elements_def)
  have fav: "map_of [(''favorited'', JBool False)] ''favorited'' = Some (JBool False)"
    by simp
  show ?thesis
    using toggleLike_favorited_false [OF _ _ fav icon len, of 200 example_click] icon len
    by simp
qed







text \<open>
  C6. Whatever the event, the page and the answer, the event an invocation returns has
  its default action prevented; that event is the one the part before the \<^verbatim>\<open>await\<close>
  returns, so the answer has no part in it; and among the effects of that part the
  prevention comes first and the request last, with no request between them.
\<close>

theorem toggleLike_prevents_default:
  "defaultPrevented (event_after (toggleLike md evt r st))
   \<and> event_after (toggleLike md evt r st) = event_after (toggleLike_issue md evt st)
   \<and> (\<exists>logs q. effects (page_after (toggleLike_issue md evt st))
          = effects st @ DefaultPrevented # logs @ [Sent q] \<and> requests logs = [])"
proof -
  have "\<exists>logs q. effects (page_after (toggleLike_issue md evt st))
          = effects st @ DefaultPrevented # logs @ [Sent q] \<and> requests logs = []"
    unfolding toggleLike_issue_unfold page_after_def
    by (intro exI [where x = "[Logged a, Logged b, Logged c]" for a b c]) simp
  then show ?thesis
    by (simp add: event_after_def toggleLike_unfold toggleLike_issue_unfold)
qed






text \<open>
  C9. \<open>els0\<close> is the document when the script was loaded, and the page of the click may
  differ from it in its class lists. One invocation keeps the number of elements;
  leaves every element that did not have class \<^verbatim>\<open>fav-icon\<close> at load time as it was; keeps
  the parent and the data of every element; for a response with a status from 200 to
  299 and a payload that is not null, gives every element that had class \<^verbatim>\<open>fav-icon\<close>
  at load time the class list the payload's \<^verbatim>\<open>favorited\<close> decides; yields the same
  elements for any other event; and has its request carry the token of the first
  element that had class \<^verbatim>\<open>fav-button\<close> at load time.
\<close>

theorem toggleLike_frame:
  "length (elements (page_after (toggleLike (load els0) evt r st))) = length (elements st)
   \<and> (\<forall>i. \<not> (i < length els0 \<and> has_class ''fav-icon'' (els0 ! i)) \<longrightarrow>
          elements (page_after (toggleLike (load els0) evt r st)) ! i = elements st ! i)
   \<and> (\<forall>i. parent (elements (page_after (toggleLike (load els0) evt r st)) ! i) = parent (elements st ! i)
          \<and> dataset (elements (page_after (toggleLike (load els0) evt r st)) ! i) = dataset (elements st ! i))
   \<and> (\<forall>i. i < length els0 \<and> has_class ''fav-icon'' (els0 ! i) \<and> i < length (elements st)
            \<and> 200 \<le> s \<and> s < 300 \<and> get_favorited d = Inr v \<longrightarrow>
          classes (elements (page_after (toggleLike (load els0) evt (HttpResponse s d) st)) ! i) =
            (if loose_equals_true v
             then add_classes [''bi-star-fill'', ''text-warning''] (remove_classes [''bi-star''] (classes (elements st ! i)))
             else add_classes [''bi-star''] (remove_classes [''bi-star-fill'', ''text-warning''] (classes (elements st ! i)))))
   \<and> elements (page_after (toggleLike (load els0) evt' r st)) = elements (page_after (toggleLike (load els0) evt r st))
   \<and> (\<forall>b. b < length els0 \<and> has_class ''fav-button'' (els0 ! b) \<and> (\<forall>j<b. \<not> has_class ''fav-button'' (els0 ! j))
            \<and> b < length (elements st) \<longrightarrow>
          (\<exists>q. requests (effects (page_after (toggleLike (load els0) evt r st))) = requests (effects st) @ [q]
             \<and> map_of (headers q) ''X-CSRFToken'' =
                 header_value (case map_of (dataset (elements st ! b)) ''csrf'' of None \<Rightarrow> JUndefined | Some t \<Rightarrow> t)))"
proof (intro conjI allI impI)
  let ?md = "load els0"
  have icons: "\<And>i. i \<in> set (favIcon ?md) \<longleftrightarrow> i < length els0 \<and> has_class ''fav-icon'' (els0 ! i)"
    by (simp add: load_def set_jq_select)
  show "length (elements (page_after (toggleLike ?md evt r st))) = length (elements st)"
    by (simp add: elements_toggleLike length_elements_resume elements_issue)
  show "elements (page_after (toggleLike ?md evt r st)) ! i = elements st ! i"
    if "\<not> (i < length els0 \<and> has_class ''fav-icon'' (els0 ! i))" for i
  proof -
    have "i \<notin> set (favIcon ?md)" using that icons by blast
    then show ?thesis
      by (simp add: elements_toggleLike other_resume elements_issue)
  qed
  show "parent (elements (page_after (toggleLike ?md evt r st)) ! i) = parent (elements st ! i)" for i
    by (simp add: elements_toggleLike parent_resume elements_issue)
  show "dataset (elements (page_after (toggleLike ?md evt r st)) ! i) = dataset (elements st ! i)" for i
    by (simp add: elements_toggleLike dataset_resume elements_issue)
  show "classes (elements (page_after (toggleLike ?md evt (HttpResponse s d) st)) ! i) =
            (if loose_equals_true v
             then add_classes [''bi-star-fill'', ''text-warning''] (remove_classes [''bi-star''] (classes (elements st ! i)))
             else add_classes [''bi-star''] (remove_classes [''bi-star-fill'', ''text-warning''] (classes (elements st ! i))))"
    if h: "i < length els0 \<and> has_class ''fav-icon'' (els0 ! i) \<and> i < length (elements st)
            \<and> 200 \<le> s \<and> s < 300 \<and> get_favorited d = Inr v" for i
  proof -
    have mem: "i \<in> set (favIcon ?md)" using h icons by blast
    show ?thesis
      using toggleLike_icon_classes [of s d v i ?md st evt] h mem by blast
  qed
  show "elements (page_after (toggleLike ?md evt' r st)) = elements (page_after (toggleLike ?md evt r st))"
    unfolding elements_toggleLike
    by (rule elements_resume_page) (simp add: elements_issue)
  show "\<exists>q. requests (effects (page_after (toggleLike ?md evt r st))) = requests (effects st) @ [q]
             \<and> map_of (headers q) ''X-CSRFToken'' =
                 header_value (case map_of (dataset (elements st ! b)) ''csrf'' of None \<Rightarrow> JUndefined | Some t \<Rightarrow> t)"
    if h: "b < length els0 \<and> has_class ''fav-button'' (els0 ! b) \<and> (\<forall>j<b. \<not> has_class ''fav-button'' (els0 ! j))
            \<and> b < length (elements st)" for b
  proof -
    obtain rest where "favButton ?md = b # rest"
      using jq_select_first [of b els0 "''fav-button''"] h by (auto simp: load_def)
    then have "jq_data (elements st) (favButton ?md) ''csrf'' =
        (case map_of (dataset (elements st ! b)) ''csrf'' of None \<Rightarrow> JUndefined | Some t \<Rightarrow> t)"
      using h by (simp add: jq_data_def)
    then show ?thesis
      by (simp add: requests_toggleLike carried_after_set)
  qed
qed

text \<open>
  On the example page, for a click in the second form answered with \<^verbatim>\<open>favorited\<close> true:
  the unstarred icon of the first form becomes starred, the star outside the forms stays
  as it is, and the token is that of the first button.
\<close>

theorem toggleLike_frame_witness:
  "\<not> (6 < length example_elements \<and> has_class ''fav-icon'' (example_elements ! 6))
   \<and> elements (page_after (toggleLike (load example_elements) example_click_second
          (HttpResponse 200 (JObj [(''favorited'', JBool True)])) example_page)) ! 6 = elements example_page ! 6
   \<and> 2 < length example_elements \<and> has_class ''fav-icon'' (example_elements ! 2)
   \<and> classes (elements example_page ! 2) = [''fav-icon'', ''bi'', ''bi-star'']
   \<and> classes (elements (page_after (toggleLike (load example_elements) example_click_second
          (HttpResponse 200 (JObj [(''favorited'', JBool True)])) example_page)) ! 2)
          = [''fav-icon'', ''bi'', ''bi-star-fill'', ''text-warning'']
   \<and> elements (page_after (toggleLike (load example_elements) example_click
          (HttpResponse 200 (JObj [(''favorited'', JBool True)])) example_page))
       = elements (page_after (toggleLike (load example_elements) example_click_second
          (HttpResponse 200 (JObj [(''favorited'', JBool True)])) example_page))
   \<and> (\<exists>q. requests (effects (page_after (toggleLike (load example_elements) example_click_second
          (HttpResponse 200 (JObj [(''favorited'', JBool True)])) example_page))) = [q]
          \<and> map_of (headers q) ''X-CSRFToken'' = Some ''token-a'')"
proof -
  let ?r = "HttpResponse 200 (JObj [(''favorited'', JBool True)])"
  note frame = toggleLike_frame [of example_elements example_click_second ?r example_page
      200 "JObj [(''favorited'', JBool True)]" "JBool True" example_click]
  have other: "\<not> (6 < length example_elements \<and> has_class ''fav-icon'' (example_elements ! 6))"
    by code_simp
  have icon: "2 < length example_elements \<and> has_class ''fav-icon'' (example_elements ! 2)"
    by code_simp
  have resp: "2 < length (elements example_page) \<and> (200::nat) \<le> 200 \<and> (200::nat) < 300
      \<and> get_favorited (JObj [(''favorited'', JBool True)]) = Inr (JBool True)"
    by (simp add: example_page_def example_elements_def)
  have cls: "classes (elements example_page ! 2) = [''fav-icon'', ''bi'', ''bi-star'']"
    by (simp add: example_page_def example_elements_def)
  have button: "1 < length example_elements \<and> has_class ''fav-button'' (example_elements ! 1)
      \<and> (\<forall>j<1. \<not> has_class ''fav-button'' (example_elements ! j)) \<and> 1 < length (elements example_page)"
    by (simp add: example_page_def example_elements_def has_class_def)
  have token: "map_of (dataset (elements example_page ! 1)) ''csrf'' = Some (JStr ''token-a'')"
    by (simp add: example_page_def example_elements_def)
  have carried: "header_value (JStr ''token-a'') = Some ''token-a''"
    by code_simp
  have a: "elements (page_after (toggleLike (load example_elements) example_click_second ?r example_page)) ! 6
      = elements example_page ! 6"
    using frame other by blast
  have "classes (elements (page_after (toggleLike (load example_elements) example_click_second ?r example_page)) ! 2)
          = (if loose_equals_true (JBool True)
             then add_classes [''bi-star-fill'', ''text-warning''] (remove_classes [''bi-star''] (classes (elements example_page ! 2)))
             else add_classes [''bi-star''] (remove_classes [''bi-star-fill'', ''text-warning''] (classes (elements example_page ! 2))))"
    using frame icon resp by blast
  then have b: "classes (elements (page_after (toggleLike (load example_elements) example_click_second ?r example_page)) ! 2)
          = [''fav-icon'', ''bi'', ''bi-star-fill'', ''text-warning'']"
    unfolding cls by simp
  have c: "elements (page_after (toggleLike (load example_elements) example_click ?r example_page))
       = elements (page_after (toggleLike (load example_elements) example_click_second ?r example_page))"
    using frame by blast
  have "\<exists>q. requests (effects (page_after (toggleLike (load example_elements) example_click_second ?r example_page)))
          = requests (effects example_page) @ [q]
          \<and> map_of (headers q) ''X-CSRFToken'' =
               header_value (case map_of (dataset (elements example_page ! 1)) ''csrf'' of None \<Rightarrow> JUndefined | Some t \<Rightarrow> t)"
    using frame button by blast
  then have d: "\<exists>q. requests (effects (page_after (toggleLike (load example_elements) example_click_second ?r example_page))) = [q]
          \<and> map_of (headers q) ''X-CSRFToken'' = Some ''token-a''"
    by (simp only: token effects_example option.case carried requests.simps append_Nil)
  show ?thesis
    using other a icon cls b c d by blast
qed

text \<open>
  C10. When neither the target nor any of its ancestors has class \<^verbatim>\<open>like-form\<close>, an
  invocation still sends its one request, a POST with no body to \<^verbatim>\<open>BASE_URL\<close> followed
  by \<^verbatim>\<open>/messages/undefined/like\<close>, and the message id it logs is \<^verbatim>\<open>undefined\<close>.
\<close>

theorem toggleLike_without_form:
  assumes "\<forall>a \<in> set (ancestors_or_self (length (elements st)) (elements st) (target evt)).
             \<not> has_class ''like-form'' (elements st ! a)"
  shows "(\<exists>hs. requests (effects (page_after (toggleLike md evt r st))) =
           requests (effects st) @
             [\<lparr>verb = ''POST'', url = BASE_URL @ ''/messages/undefined/like'',
               headers = hs, body = None\<rparr>])
     \<and> Logged [JStr ''This is messageId'', JUndefined]
          \<in> set (effects (page_after (toggleLike_issue md evt st)))"
proof -
  have "jq_closest ''like-form'' (elements st) (target evt) = []"
    using assms by (rule jq_closest_none)
  then have "jq_data (elements st) (jq_closest ''like-form'' (elements st) (target evt)) ''message-id''
      = JUndefined"
    by (simp add: jq_data_def)
  then show ?thesis
    by (simp add: requests_toggleLike) (simp add: page_after_def toggleLike_issue_unfold)
qed

text \<open>
  On the example page, for a click on the button that stands outside every form.
\<close>

theorem toggleLike_without_form_witness:
  "ancestors_or_self (length (elements example_page)) (elements example_page)
        (target example_click_outside) = [7]
   \<and> \<not> has_class ''like-form'' (elements example_page ! 7)
   \<and> (\<exists>hs. requests (effects (page_after (toggleLike (load example_elements) example_click_outside NetworkError example_page))) =
             [\<lparr>verb = ''POST'', url = ''http://localhost:5001/api/messages/undefined/like'',
               headers = hs, body = None\<rparr>])
   \<and> Logged [JStr ''This is messageId'', JUndefined]
          \<in> set (effects (page_after (toggleLike_issue (load example_elements) example_click_outside example_page)))"
proof -
  have anc: "ancestors_or_self (length (elements example_page)) (elements example_page)
        (target example_click_outside) = [7]"
    by code_simp
  have cls: "\<not> has_class ''like-form'' (elements example_page ! 7)"
    by code_simp
  note main = toggleLike_without_form [OF no_form_example, of "load example_elements" NetworkError]
  from main obtain hs where "requests (effects (page_after (toggleLike (load example_elements) example_click_outside NetworkError example_page))) =
             requests (effects example_page) @
             [\<lparr>verb = ''POST'', url = BASE_URL @ ''/messages/undefined/like'',
               headers = hs, body = None\<rparr>]"
    by blast
  then have "requests (effects (page_after (toggleLike (load example_elements) example_click_outside NetworkError example_page))) =
             [\<lparr>verb = ''POST'', url = ''http://localhost:5001/api/messages/undefined/like'',
               headers = hs, body = None\<rparr>]"
    by (simp add: effects_example BASE_URL_def)
  then show ?thesis
    using anc cls main by blast
qed

end
